theory Spec2Isabelle
  imports Main "HOL-Library.Multiset"
begin

section \<open>Data model\<close>

text \<open>
  Identifiers are the UUID primary keys of \<^verbatim>\<open>app/db/models\<close>; only their equality
  matters, so a UUID is its 128-bit integer value. Timestamps are seconds as integers.
  Strings are byte strings; \<^verbatim>\<open>str.lower\<close> is modelled on ASCII letters.

  Record fields carry a prefix for the class they belong to (\<open>u_\<close> for \<^verbatim>\<open>User\<close>,
  \<open>i_\<close> for \<^verbatim>\<open>Item\<close>, \<open>uc_\<close> for \<^verbatim>\<open>UserCreate\<close>, \<open>iu_\<close> for
  \<^verbatim>\<open>ItemUpdate\<close>, \<open>lr_\<close> for \<^verbatim>\<open>LoginRequest\<close>), since the classes share attribute names.
\<close>

type_synonym uuid = nat
type_synonym timestamp = int

text \<open>\<^verbatim>\<open>app/db/models/user.py\<close>\<close>

record User =
  u_id :: uuid
  u_email :: string
  u_full_name :: "string option"
  u_hashed_password :: string
  u_is_active :: bool
  u_is_superuser :: bool
  u_created_at :: timestamp
  u_updated_at :: "timestamp option"

text \<open>\<^verbatim>\<open>app/db/models/item.py\<close>\<close>

record Item =
  i_id :: uuid
  i_title :: string
  i_description :: "string option"
  i_owner_id :: uuid
  i_created_at :: timestamp
  i_updated_at :: "timestamp option"

text \<open>\<^verbatim>\<open>app/schemas\<close>: the request and token shapes.\<close>

record UserCreate =
  uc_email :: string
  uc_full_name :: "string option"
  uc_password :: string

record LoginRequest =
  lr_email :: string
  lr_password :: string

record TokenPayload =
  sub :: "string option"
  exp :: "int option"

record TokenResponse =
  access_token :: string
  token_type :: string
  expires_in :: int

record ItemUpdate =
  iu_title :: "string option"
  iu_description :: "string option"

text \<open>
  The session: the rows of the two tables, in the order the store returns them.
\<close>

record Session =
  db_users :: "User list"
  db_items :: "Item list"

text \<open>
  The exceptions that leave the functions below. \<open>HTTPException\<close> carries the status code
  and the detail string; the others are the library errors that the code lets through or
  catches.
\<close>

datatype exn =
    JWTError
  | ValidationError
  | ValueError
  | IntegrityError
  | HTTPException nat string

text \<open>
  What the framework sends for a route: the declared status code with the returned value,
  the status and detail of an \<open>HTTPException\<close>, and 500 for any other exception.
\<close>

datatype 'a response = Response nat 'a | ErrorResponse nat string

fun respond :: "nat \<Rightarrow> exn + 'a \<Rightarrow> 'a response" where
  "respond ok (Inr v) = Response ok v"
| "respond ok (Inl (HTTPException code detail)) = ErrorResponse code detail"
| "respond ok (Inl e) = ErrorResponse 500 ''Internal Server Error''"

section \<open>Strings\<close>

text \<open>
  \<^verbatim>\<open>str.lower\<close> on the letters A to Z; every other byte is kept, so letters outside
  ASCII are not lowered here. The general theorems below use of \<open>lower\<close> only that
  applying it twice is applying it once, as holds of \<^verbatim>\<open>str.lower\<close>.
\<close>

definition lower_char :: "char \<Rightarrow> char" where
  "lower_char c =
     (let n = (of_char c :: nat)
      in if 65 \<le> n \<and> n \<le> 90 then char_of (n + 32) else c)"

definition lower :: "string \<Rightarrow> string" where
  "lower s = map lower_char s"

section \<open>User service (\<^verbatim>\<open>app/services/user_service.py\<close>)\<close>

text \<open>\<^verbatim>\<open>db.get(User, user_id)\<close>: the row with that primary key.\<close>

definition get_user :: "Session \<Rightarrow> uuid \<Rightarrow> User option" where
  "get_user db user_id = find (\<lambda>u. u_id u = user_id) (db_users db)"

text \<open>\<^verbatim>\<open>db.scalar\<close> gives the first row of the result, or \<^verbatim>\<open>None\<close>.\<close>

definition get_user_by_email :: "Session \<Rightarrow> string \<Rightarrow> User option" where
  "get_user_by_email db email = find (\<lambda>u. u_email u = lower email) (db_users db)"

text \<open>
  \<^verbatim>\<open>create_user\<close>. The password hasher of \<^verbatim>\<open>app/core/security.py\<close> is a
  parameter (with the salt it draws for this call); \<open>new_id\<close> is the value of the
  \<^verbatim>\<open>uuid.uuid4\<close> column default and \<open>now\<close> the server's \<^verbatim>\<open>func.now()\<close>. The
  commit raises \<open>IntegrityError\<close> when the primary key or the unique index on
  \<^verbatim>\<open>email\<close> is violated, and then nothing is stored.
\<close>

definition create_user ::
  "(string \<Rightarrow> string) \<Rightarrow> Session \<Rightarrow> UserCreate \<Rightarrow> bool \<Rightarrow> uuid \<Rightarrow> timestamp
     \<Rightarrow> exn + (Session \<times> User)" where
  "create_user get_password_hash db user_in is_superuser new_id now =
     (let user = \<lparr>u_id = new_id,
                  u_email = lower (uc_email user_in),
                  u_full_name = uc_full_name user_in,
                  u_hashed_password = get_password_hash (uc_password user_in),
                  u_is_active = True,
                  u_is_superuser = is_superuser,
                  u_created_at = now,
                  u_updated_at = Some now\<rparr>
      in if list_ex (\<lambda>u. u_id u = new_id \<or> u_email u = u_email user) (db_users db)
         then Inl IntegrityError
         else Inr (db\<lparr>db_users := db_users db @ [user]\<rparr>, user))"

definition authenticate_user ::
  "(string \<Rightarrow> string \<Rightarrow> bool) \<Rightarrow> Session \<Rightarrow> string \<Rightarrow> string \<Rightarrow> User option" where
  "authenticate_user verify_password db email password =
     (case get_user_by_email db (lower email) of
        None \<Rightarrow> None
      | Some user \<Rightarrow>
          if \<not> verify_password password (u_hashed_password user) then None
          else Some user)"

section \<open>Dependencies (\<^verbatim>\<open>app/api/deps.py\<close>)\<close>

text \<open>
  \<^verbatim>\<open>get_current_user\<close>. \<open>decode_payload\<close> stands for the two statements of the
  \<^verbatim>\<open>try\<close> block (\<^verbatim>\<open>jwt.decode\<close> with the configured key and algorithm, then
  \<^verbatim>\<open>TokenPayload(**payload)\<close>): it gives the payload or the exception raised. Only
  \<open>JWTError\<close> is caught. \<open>UUID\<close> is the constructor of the standard library on a
  string, \<open>None\<close> when it raises \<open>ValueError\<close>. A \<^verbatim>\<open>User\<close> object is always truthy,
  and \<^verbatim>\<open>not token_data.sub\<close> holds for \<^verbatim>\<open>None\<close> and for the empty string.
\<close>

definition get_current_user ::
  "(string \<Rightarrow> exn + TokenPayload) \<Rightarrow> (string \<Rightarrow> uuid option) \<Rightarrow> Session \<Rightarrow> string
     \<Rightarrow> exn + User" where
  "get_current_user decode_payload UUID db token =
     (case decode_payload token of
        Inl JWTError \<Rightarrow> Inl (HTTPException 401 ''Could not validate credentials'')
      | Inl e \<Rightarrow> Inl e
      | Inr token_data \<Rightarrow>
          (case sub token_data of
             None \<Rightarrow> Inl (HTTPException 401 ''Could not validate credentials'')
           | Some s \<Rightarrow>
               if s = [] then Inl (HTTPException 401 ''Could not validate credentials'')
               else (case UUID s of
                       None \<Rightarrow> Inl ValueError
                     | Some user_id \<Rightarrow>
                         (case get_user db user_id of
                            None \<Rightarrow> Inl (HTTPException 401 ''User not found'')
                          | Some user \<Rightarrow> Inr user))))"

text \<open>
  \<^verbatim>\<open>Depends\<close>: the framework runs the dependency first; when it raises, the dependent
  function is not called and the exception is the outcome.
\<close>

definition Depends :: "exn + 'a \<Rightarrow> ('a \<Rightarrow> exn + 'b) \<Rightarrow> exn + 'b" where
  "Depends dependency f = (case dependency of Inl e \<Rightarrow> Inl e | Inr v \<Rightarrow> f v)"

definition get_current_active_user :: "User \<Rightarrow> exn + User" where
  "get_current_active_user current_user =
     (if \<not> u_is_active current_user then Inl (HTTPException 400 ''Inactive user'')
      else Inr current_user)"

definition get_current_active_superuser :: "User \<Rightarrow> exn + User" where
  "get_current_active_superuser current_user =
     (if \<not> u_is_superuser current_user
      then Inl (HTTPException 403 ''Insufficient privileges'')
      else Inr current_user)"

text \<open>
  The two dependency chains as declared: both functions take
  \<^verbatim>\<open>Depends(get_current_user)\<close>.
\<close>

definition current_active_user ::
  "(string \<Rightarrow> exn + TokenPayload) \<Rightarrow> (string \<Rightarrow> uuid option) \<Rightarrow> Session \<Rightarrow> string
     \<Rightarrow> exn + User" where
  "current_active_user decode_payload UUID db token =
     Depends (get_current_user decode_payload UUID db token) get_current_active_user"

definition current_active_superuser ::
  "(string \<Rightarrow> exn + TokenPayload) \<Rightarrow> (string \<Rightarrow> uuid option) \<Rightarrow> Session \<Rightarrow> string
     \<Rightarrow> exn + User" where
  "current_active_superuser decode_payload UUID db token =
     Depends (get_current_user decode_payload UUID db token) get_current_active_superuser"

section \<open>Authentication routes (\<^verbatim>\<open>app/api/routes/auth.py\<close>)\<close>

text \<open>
  A route that raises has committed nothing, so only the successful outcome carries the
  new session.
\<close>

definition register_user ::
  "(string \<Rightarrow> string) \<Rightarrow> Session \<Rightarrow> UserCreate \<Rightarrow> uuid \<Rightarrow> timestamp
     \<Rightarrow> exn + (Session \<times> User)" where
  "register_user get_password_hash db user_in new_id now =
     (case get_user_by_email db (uc_email user_in) of
        Some existing \<Rightarrow> Inl (HTTPException 400 ''Email already registered'')
      | None \<Rightarrow> create_user get_password_hash db user_in False new_id now)"

text \<open>
  \<^verbatim>\<open>login\<close>. \<open>create_access_token\<close> (of \<^verbatim>\<open>app/core/security.py\<close>) and the
  printing of a UUID are parameters; \<open>access_token_expire_minutes\<close> is the setting.
\<close>

definition login ::
  "(string \<Rightarrow> string \<Rightarrow> bool) \<Rightarrow> (string \<Rightarrow> int \<Rightarrow> string) \<Rightarrow> (uuid \<Rightarrow> string) \<Rightarrow> int
     \<Rightarrow> Session \<Rightarrow> LoginRequest \<Rightarrow> exn + TokenResponse" where
  "login verify_password create_access_token str access_token_expire_minutes db
         login_request =
     (case authenticate_user verify_password db (lr_email login_request)
             (lr_password login_request) of
        None \<Rightarrow> Inl (HTTPException 401 ''Incorrect email or password'')
      | Some user \<Rightarrow>
          (let expires_delta = access_token_expire_minutes * 60
           in Inr \<lparr>access_token = create_access_token (str (u_id user)) expires_delta,
                   token_type = ''bearer'',
                   expires_in = expires_delta\<rparr>))"

section \<open>Item service (\<^verbatim>\<open>app/services/item_service.py\<close>)\<close>

text \<open>
  \<^verbatim>\<open>ORDER BY created_at DESC\<close>: a stable sort on the negated timestamp (the store
  leaves the order of equal timestamps open).
\<close>

definition list_items :: "Session \<Rightarrow> uuid \<Rightarrow> Item list" where
  "list_items db owner_id =
     sort_key (\<lambda>i. - i_created_at i) (filter (\<lambda>i. i_owner_id i = owner_id) (db_items db))"

definition get_item :: "Session \<Rightarrow> uuid \<Rightarrow> uuid \<Rightarrow> Item option" where
  "get_item db owner_id item_id =
     find (\<lambda>i. i_owner_id i = owner_id \<and> i_id i = item_id) (db_items db)"

text \<open>
  \<^verbatim>\<open>update_item\<close>, on an item read in this session. The flush emits an
  \<^verbatim>\<open>UPDATE\<close> for the row only when an attribute has a new value, and then the column
  \<^verbatim>\<open>updated_at\<close> takes \<^verbatim>\<open>func.now()\<close> (its \<^verbatim>\<open>onupdate\<close> in
  \<^verbatim>\<open>app/db/models/item.py\<close>); \<^verbatim>\<open>db.refresh\<close> reads the row back.
\<close>

definition update_item :: "Session \<Rightarrow> Item \<Rightarrow> ItemUpdate \<Rightarrow> timestamp \<Rightarrow> Session \<times> Item" where
  "update_item db item item_in now =
     (let item1 = (case iu_title item_in of
                     None \<Rightarrow> item
                   | Some t \<Rightarrow> item\<lparr>i_title := t\<rparr>);
          item2 = (case iu_description item_in of
                     None \<Rightarrow> item1
                   | Some d \<Rightarrow> item1\<lparr>i_description := Some d\<rparr>);
          item3 = (if item2 = item then item2 else item2\<lparr>i_updated_at := Some now\<rparr>)
      in (db\<lparr>db_items := map (\<lambda>r. if i_id r = i_id item then item3 else r) (db_items db)\<rparr>,
          item3))"

definition delete_item :: "Session \<Rightarrow> Item \<Rightarrow> Session" where
  "delete_item db item = db\<lparr>db_items := filter (\<lambda>r. i_id r \<noteq> i_id item) (db_items db)\<rparr>"

section \<open>Item routes (\<^verbatim>\<open>app/api/routes/items.py\<close>)\<close>

text \<open>
  \<open>current_user\<close> is the value of \<^verbatim>\<open>Depends(get_current_active_user)\<close>.
\<close>

definition list_my_items :: "Session \<Rightarrow> User \<Rightarrow> exn + Item list" where
  "list_my_items db current_user = Inr (list_items db (u_id current_user))"

definition get_item_by_id :: "Session \<Rightarrow> User \<Rightarrow> uuid \<Rightarrow> exn + Item" where
  "get_item_by_id db current_user item_id =
     (case get_item db (u_id current_user) item_id of
        None \<Rightarrow> Inl (HTTPException 404 ''Item not found'')
      | Some item \<Rightarrow> Inr item)"

definition update_item_by_id ::
  "Session \<Rightarrow> User \<Rightarrow> uuid \<Rightarrow> ItemUpdate \<Rightarrow> timestamp \<Rightarrow> exn + (Session \<times> Item)" where
  "update_item_by_id db current_user item_id item_in now =
     (case get_item db (u_id current_user) item_id of
        None \<Rightarrow> Inl (HTTPException 404 ''Item not found'')
      | Some item \<Rightarrow> Inr (update_item db item item_in now))"

definition delete_item_by_id :: "Session \<Rightarrow> User \<Rightarrow> uuid \<Rightarrow> exn + (Session \<times> unit)" where
  "delete_item_by_id db current_user item_id =
     (case get_item db (u_id current_user) item_id of
        None \<Rightarrow> Inl (HTTPException 404 ''Item not found'')
      | Some item \<Rightarrow> Inr (delete_item db item, ()))"

section \<open>Store invariants\<close>

text \<open>
  Every stored email is in lower case: \<^verbatim>\<open>create_user\<close> is the only function that
  inserts a user and it stores \<^verbatim>\<open>user_in.email.lower()\<close>.
\<close>

definition emails_normalized :: "Session \<Rightarrow> bool" where
  "emails_normalized db = list_all (\<lambda>u. u_email u = lower (u_email u)) (db_users db)"


section \<open>A sample environment\<close>

text \<open>
  Concrete collaborators and a concrete store, for evaluating the functions above.

  \<open>UUID_of_str\<close> follows the string branch of the standard library's \<^verbatim>\<open>UUID\<close>
  constructor: remove \<^verbatim>\<open>urn:\<close> and \<^verbatim>\<open>uuid:\<close>, strip braces, remove
  hyphens, require 32 characters, read them in base 16. Only hexadecimal digits are read
  here; the other spellings that \<^verbatim>\<open>int(hex, 16)\<close> accepts are not used below.
\<close>

definition hex_digit :: "char \<Rightarrow> nat option" where
  "hex_digit c =
     (let n = (of_char c :: nat)
      in if 48 \<le> n \<and> n \<le> 57 then Some (n - 48)
         else if 97 \<le> n \<and> n \<le> 102 then Some (n - 87)
         else if 65 \<le> n \<and> n \<le> 70 then Some (n - 55)
         else None)"

fun hex_value :: "nat \<Rightarrow> string \<Rightarrow> nat option" where
  "hex_value acc [] = Some acc"
| "hex_value acc (c # cs) =
     (case hex_digit c of None \<Rightarrow> None | Some d \<Rightarrow> hex_value (16 * acc + d) cs)"

function remove_all :: "string \<Rightarrow> string \<Rightarrow> string" where
  "remove_all old s =
     (if old = [] \<or> s = [] then s
      else if take (length old) s = old then remove_all old (drop (length old) s)
      else hd s # remove_all old (tl s))"
  by pat_completeness auto
termination
  by (relation "measure (\<lambda>(old, s). length s)") auto

definition strip_braces :: "string \<Rightarrow> string" where
  "strip_braces s =
     (let p = (\<lambda>c. c = CHR ''{'' \<or> c = CHR ''}'')
      in rev (dropWhile p (rev (dropWhile p s))))"

definition UUID_of_str :: "string \<Rightarrow> uuid option" where
  "UUID_of_str s =
     (let hex = remove_all ''uuid:'' (remove_all ''urn:'' s);
          hex = filter (\<lambda>c. c \<noteq> CHR ''-'') (strip_braces hex)
      in if length hex \<noteq> 32 then None else hex_value 0 hex)"

definition sample_hash :: "string \<Rightarrow> string" where
  "sample_hash password = ''hashed:'' @ password"

definition sample_verify :: "string \<Rightarrow> string \<Rightarrow> bool" where
  "sample_verify password digest = (digest = ''hashed:'' @ password)"

definition alice :: User where
  "alice = \<lparr>u_id = 10, u_email = ''alice@example.com'', u_full_name = None,
            u_hashed_password = ''hashed:pw12345678'', u_is_active = True,
            u_is_superuser = False, u_created_at = 100, u_updated_at = Some 100\<rparr>"

definition bob :: User where
  "bob = \<lparr>u_id = 11, u_email = ''bob@example.com'', u_full_name = Some ''Bob'',
          u_hashed_password = ''hashed:hunter2hunter2'', u_is_active = True,
          u_is_superuser = False, u_created_at = 110, u_updated_at = Some 110\<rparr>"

definition carol :: User where
  "carol = \<lparr>u_id = 12, u_email = ''carol@example.com'', u_full_name = None,
            u_hashed_password = ''hashed:carolcarol'', u_is_active = False,
            u_is_superuser = True, u_created_at = 120, u_updated_at = Some 120\<rparr>"

definition dave :: User where
  "dave = \<lparr>u_id = 13, u_email = ''dave@example.com'', u_full_name = None,
           u_hashed_password = ''hashed:davedavedave'', u_is_active = False,
           u_is_superuser = False, u_created_at = 130, u_updated_at = Some 130\<rparr>"

definition erin :: User where
  "erin = \<lparr>u_id = 14, u_email = ''erin@example.com'', u_full_name = None,
           u_hashed_password = ''hashed:pw12345678'', u_is_active = True,
           u_is_superuser = False, u_created_at = 500, u_updated_at = Some 500\<rparr>"

definition frank :: User where
  "frank = \<lparr>u_id = 15, u_email = ''frank@example.com'', u_full_name = Some ''Frank'',
            u_hashed_password = ''hashed:frankfrank'', u_is_active = True,
            u_is_superuser = False, u_created_at = 600, u_updated_at = Some 600\<rparr>"

definition groceries :: Item where
  "groceries = \<lparr>i_id = 100, i_title = ''groceries'', i_description = None,
                i_owner_id = 10, i_created_at = 200, i_updated_at = Some 200\<rparr>"

definition laundry :: Item where
  "laundry = \<lparr>i_id = 101, i_title = ''laundry'', i_description = Some ''whites'',
              i_owner_id = 10, i_created_at = 300, i_updated_at = Some 300\<rparr>"

definition taxes :: Item where
  "taxes = \<lparr>i_id = 102, i_title = ''taxes'', i_description = None,
            i_owner_id = 11, i_created_at = 250, i_updated_at = Some 250\<rparr>"

definition sample_db :: Session where
  "sample_db = \<lparr>db_users = [alice, bob, carol, dave],
                db_items = [groceries, laundry, taxes]\<rparr>"

definition sample_decode_payload :: "string \<Rightarrow> exn + TokenPayload" where
  "sample_decode_payload token =
     (if token = ''token-alice''
      then Inr \<lparr>sub = Some ''00000000-0000-0000-0000-00000000000a'', exp = Some 4102444800\<rparr>
      else if token = ''token-carol''
      then Inr \<lparr>sub = Some ''00000000-0000-0000-0000-00000000000c'', exp = Some 4102444800\<rparr>
      else if token = ''token-dave''
      then Inr \<lparr>sub = Some ''00000000-0000-0000-0000-00000000000d'', exp = Some 4102444800\<rparr>
      else if token = ''token-ghost''
      then Inr \<lparr>sub = Some ''00000000-0000-0000-0000-000000000063'', exp = Some 4102444800\<rparr>
      else if token = ''token-no-sub''
      then Inr \<lparr>sub = None, exp = Some 4102444800\<rparr>
      else if token = ''token-empty-sub''
      then Inr \<lparr>sub = Some [], exp = Some 4102444800\<rparr>
      else if token = ''token-bad-sub''
      then Inr \<lparr>sub = Some ''not-a-uuid'', exp = Some 4102444800\<rparr>
      else Inl JWTError)"

definition sample_create_access_token :: "string \<Rightarrow> int \<Rightarrow> string" where
  "sample_create_access_token subject expires_delta = ''token-for-'' @ subject"

definition sample_str :: "uuid \<Rightarrow> string" where
  "sample_str user_id = (if user_id = 10 then ''00000000-0000-0000-0000-00000000000a'' else ''other'')"


section \<open>Auxiliary facts\<close>

lemma lower_char_idem: "lower_char (lower_char c) = lower_char c"
  by (simp add: lower_char_def Let_def)

lemma lower_idem: "lower (lower s) = lower s"
  by (simp add: lower_def lower_char_idem)

lemma get_user_None_iff: "get_user db user_id = None \<longleftrightarrow> user_id \<notin> u_id ` set (db_users db)"
  by (auto simp: get_user_def find_None_iff)

lemma get_user_by_email_None_iff:
  "get_user_by_email db email = None \<longleftrightarrow> lower email \<notin> u_email ` set (db_users db)"
  by (auto simp: get_user_by_email_def find_None_iff image_iff)

lemma authenticate_user_unknown:
  "lower email \<notin> u_email ` set (db_users db)
   \<Longrightarrow> authenticate_user verify_password db email password = None"
proof -
  assume "lower email \<notin> u_email ` set (db_users db)"
  then have "get_user_by_email db (lower email) = None"
    by (simp add: get_user_by_email_None_iff lower_idem)
  then show ?thesis
    by (simp add: authenticate_user_def)
qed

lemma authenticate_user_wrong_password:
  "get_user_by_email db email = Some user
   \<Longrightarrow> \<not> verify_password password (u_hashed_password user)
   \<Longrightarrow> authenticate_user verify_password db email password = None"
  by (simp add: authenticate_user_def get_user_by_email_def lower_idem)

lemma create_user_Inr:
  assumes "create_user get_password_hash db user_in is_superuser new_id now = Inr (db', user)"
  shows "user = \<lparr>u_id = new_id, u_email = lower (uc_email user_in),
                  u_full_name = uc_full_name user_in,
                  u_hashed_password = get_password_hash (uc_password user_in),
                  u_is_active = True, u_is_superuser = is_superuser,
                  u_created_at = now, u_updated_at = Some now\<rparr>"
    and "db' = db\<lparr>db_users := db_users db @ [user]\<rparr>"
    and "lower (uc_email user_in) \<notin> u_email ` set (db_users db)"
    and "new_id \<notin> u_id ` set (db_users db)"
  using assms
  by (auto simp: create_user_def Let_def list_ex_iff image_iff split: if_splits)

lemma find_append_new:
  "\<not> (\<exists>x \<in> set xs. P x) \<Longrightarrow> P y \<Longrightarrow> find P (xs @ [y]) = Some y"
  by (induction xs) auto

lemma find_unique_key:
  "distinct (map f xs) \<Longrightarrow> x \<in> set xs \<Longrightarrow> find (\<lambda>y. f y = f x) xs = Some x"
proof (induction xs)
  case Nil
  then show ?case by simp
next
  case (Cons a xs)
  show ?case
  proof (cases "a = x")
    case True
    then show ?thesis by simp
  next
    case False
    with Cons.prems have x: "x \<in> set xs" by simp
    from Cons.prems have "f a \<notin> f ` set xs" by simp
    with x have "f a \<noteq> f x" by auto
    moreover from Cons.prems have "distinct (map f xs)" by simp
    ultimately show ?thesis using Cons.IH x by simp
  qed
qed

lemma authenticate_user_stored:
  assumes "distinct (map u_email (db_users db))"
    and "user \<in> set (db_users db)"
    and "u_email user = lower email"
    and "verify_password password (u_hashed_password user)"
  shows "authenticate_user verify_password db email password = Some user"
proof -
  from assms(1,2) have "find (\<lambda>u. u_email u = u_email user) (db_users db) = Some user"
    by (rule find_unique_key)
  then have "get_user_by_email db (lower email) = Some user"
    by (simp add: get_user_by_email_def assms(3) lower_idem)
  with assms(4) show ?thesis
    by (simp add: authenticate_user_def)
qed

lemma create_user_distinct_emails:
  assumes "create_user get_password_hash db user_in is_superuser new_id now = Inr (db', user)"
    and "distinct (map u_email (db_users db))"
  shows "distinct (map u_email (db_users db'))"
proof -
  note c = create_user_Inr [OF assms(1)]
  have "u_email user = lower (uc_email user_in)"
    by (subst c(1)) simp
  with c(3) assms(2) show ?thesis
    by (simp add: c(2))
qed

lemma get_item_other_owner:
  assumes "distinct (map i_id (db_items db))"
    and "item \<in> set (db_items db)"
    and "i_owner_id item \<noteq> owner_id"
  shows "get_item db owner_id (i_id item) = None"
proof -
  have "\<not> (\<exists>r. r \<in> set (db_items db) \<and> i_owner_id r = owner_id \<and> i_id r = i_id item)"
  proof
    assume "\<exists>r. r \<in> set (db_items db) \<and> i_owner_id r = owner_id \<and> i_id r = i_id item"
    then obtain r where r: "r \<in> set (db_items db)" "i_owner_id r = owner_id" "i_id r = i_id item"
      by blast
    from assms(1) have "inj_on i_id (set (db_items db))"
      by (simp add: distinct_map)
    with r(1,3) assms(2) have "r = item"
      by (auto dest: inj_onD)
    with r(2) assms(3) show False by simp
  qed
  then show ?thesis
    by (simp add: get_item_def find_None_iff)
qed

lemma get_item_missing:
  "item_id \<notin> i_id ` set (db_items db) \<Longrightarrow> get_item db owner_id item_id = None"
  by (auto simp: get_item_def find_None_iff)

lemma get_item_Some:
  "get_item db owner_id item_id = Some item
   \<Longrightarrow> item \<in> set (db_items db) \<and> i_owner_id item = owner_id \<and> i_id item = item_id"
  by (auto simp: get_item_def find_Some_iff)

lemma emails_normalized_iff:
  "emails_normalized db \<longleftrightarrow> (\<forall>u \<in> set (db_users db). u_email u = lower (u_email u))"
  by (simp add: emails_normalized_def list_all_iff)

lemma emails_normalized_empty: "emails_normalized \<lparr>db_users = [], db_items = items\<rparr>"
  by (simp add: emails_normalized_def)

lemma emails_normalized_create_user:
  assumes "emails_normalized db"
    and "create_user get_password_hash db user_in is_superuser new_id now = Inr (db', user)"
  shows "emails_normalized db'"
proof -
  note c = create_user_Inr [OF assms(2)]
  have "u_email user = lower (u_email user)"
    by (subst (1 2) c(1)) (simp add: lower_idem)
  with assms(1) show ?thesis
    by (simp add: emails_normalized_def c(2))
qed

lemma get_user_by_email_normalized:
  assumes "emails_normalized db"
  shows "get_user_by_email db email = None
         \<longleftrightarrow> \<not> list_ex (\<lambda>u. lower (u_email u) = lower email) (db_users db)"
proof -
  from assms have "\<And>u. u \<in> set (db_users db) \<Longrightarrow> lower (u_email u) = u_email u"
    by (simp add: emails_normalized_iff)
  then show ?thesis
    by (auto simp: get_user_by_email_def find_None_iff list_ex_iff)
qed

lemma create_user_fresh:
  assumes "lower (uc_email user_in) \<notin> u_email ` set (db_users db)"
    and "new_id \<notin> u_id ` set (db_users db)"
  shows "\<exists>user. create_user get_password_hash db user_in is_superuser new_id now
                  = Inr (db\<lparr>db_users := db_users db @ [user]\<rparr>, user)
              \<and> u_id user = new_id \<and> u_email user = lower (uc_email user_in)"
  using assms by (auto simp: create_user_def Let_def list_ex_iff image_iff)

lemma update_rows_frame:
  assumes "distinct (map i_id rows)" and "item \<in> set rows" and "f item' = f item"
  shows "map f (map (\<lambda>r. if i_id r = i_id item then item' else r) rows) = map f rows"
proof -
  from assms(1) have inj: "inj_on i_id (set rows)"
    by (simp add: distinct_map)
  have "\<And>r. r \<in> set rows \<Longrightarrow> f (if i_id r = i_id item then item' else r) = f r"
  proof -
    fix r assume r: "r \<in> set rows"
    show "f (if i_id r = i_id item then item' else r) = f r"
    proof (cases "i_id r = i_id item")
      case True
      with inj r assms(2) have "r = item" by (auto dest: inj_onD)
      with True assms(3) show ?thesis by simp
    next
      case False
      then show ?thesis by simp
    qed
  qed
  then show ?thesis by (simp add: comp_def)
qed

lemma update_item_result:
  assumes "update_item db item item_in now = (db', item')"
  shows "i_id item' = i_id item" and "i_owner_id item' = i_owner_id item"
    and "i_created_at item' = i_created_at item"
    and "i_title item' = (case iu_title item_in of None \<Rightarrow> i_title item | Some t \<Rightarrow> t)"
    and "i_description item'
           = (case iu_description item_in of None \<Rightarrow> i_description item | Some d \<Rightarrow> Some d)"
    and "i_updated_at item' = i_updated_at item \<or> i_updated_at item' = Some now"
    and "db' = db\<lparr>db_items := map (\<lambda>r. if i_id r = i_id item then item' else r) (db_items db)\<rparr>"
  using assms
  by (cases item; auto simp: update_item_def Let_def split: option.splits if_splits)+

section \<open>Token resolution\<close>

text \<open>
  C1. A token that decodes, whose subject is read as an identifier that no stored user
  has (the user was deleted after the token was issued, say), is rejected: the outcome of
  \<open>get_current_user\<close> is the 401 error and no user, whatever the signature and the
  expiry of the token. The subject identifier is the UUID that the code builds from the
  \<open>sub\<close> claim before it asks the store.
\<close>

theorem get_current_user_unknown_subject:
  assumes "decode_payload token = Inr token_data"
    and "sub token_data = Some s" and "s \<noteq> []"
    and "UUID s = Some user_id"
    and "user_id \<notin> u_id ` set (db_users db)"
  shows "get_current_user decode_payload UUID db token = Inl (HTTPException 401 ''User not found'')
       \<and> respond 200 (get_current_user decode_payload UUID db token)
           = ErrorResponse 401 ''User not found''"
proof -
  from assms(5) have "get_user db user_id = None"
    by (simp add: get_user_None_iff)
  with assms(1-4) show ?thesis
    by (simp add: get_current_user_def)
qed

theorem get_current_user_unknown_subject_witness:
  "get_current_user sample_decode_payload UUID_of_str sample_db ''token-ghost''
     = Inl (HTTPException 401 ''User not found'')
   \<and> respond 200 (get_current_user sample_decode_payload UUID_of_str sample_db ''token-ghost'')
       = ErrorResponse 401 ''User not found''"
proof -
  have d: "sample_decode_payload ''token-ghost''
             = Inr \<lparr>sub = Some ''00000000-0000-0000-0000-000000000063'', exp = Some 4102444800\<rparr>"
    by (simp add: sample_decode_payload_def)
  have s: "sub \<lparr>sub = Some ''00000000-0000-0000-0000-000000000063'', exp = Some 4102444800\<rparr>
             = Some ''00000000-0000-0000-0000-000000000063''"
    by simp
  have n: "''00000000-0000-0000-0000-000000000063'' \<noteq> []"
    by simp
  have u: "UUID_of_str ''00000000-0000-0000-0000-000000000063'' = Some 99"
    by code_simp
  have m: "(99::nat) \<notin> u_id ` set (db_users sample_db)"
    by (simp add: sample_db_def alice_def bob_def carol_def dave_def)
  show ?thesis
    by (rule get_current_user_unknown_subject
          [where decode_payload = sample_decode_payload and UUID = UUID_of_str
             and db = sample_db and user_id = 99, OF d s n u m])
qed

text \<open>
  C4. The detail of the error when resolution fails. The claim asks for the one
  message ``Could not validate credentials'' on every failure; for a subject that no
  stored user has, the code answers ``User not found''.
\<close>

theorem get_current_user_detail_counterexample:
  "get_current_user sample_decode_payload UUID_of_str sample_db ''token-ghost''
     = Inl (HTTPException 401 ''User not found'')
   \<and> ''User not found'' \<noteq> ''Could not validate credentials''"
proof -
  have d: "sample_decode_payload ''token-ghost''
             = Inr \<lparr>sub = Some ''00000000-0000-0000-0000-000000000063'', exp = Some 4102444800\<rparr>"
    by (simp add: sample_decode_payload_def)
  have u: "UUID_of_str ''00000000-0000-0000-0000-000000000063'' = Some 99"
    by code_simp
  have m: "get_user sample_db 99 = None"
    by (simp add: get_user_def sample_db_def alice_def bob_def carol_def dave_def)
  from d u m show ?thesis
    by (simp add: get_current_user_def)
qed

text \<open>
  C4, as the code has it: a codec error (\<open>JWTError\<close>) and a missing or empty subject
  give 401 with ``Could not validate credentials''; a subject identifier that no stored
  user has gives 401 with ``User not found''.
\<close>

theorem get_current_user_failure_details:
  "(decode_payload token = Inl JWTError
      \<longrightarrow> get_current_user decode_payload UUID db token
            = Inl (HTTPException 401 ''Could not validate credentials''))
   \<and> (decode_payload token = Inr token_data \<and> (sub token_data = None \<or> sub token_data = Some [])
      \<longrightarrow> get_current_user decode_payload UUID db token
            = Inl (HTTPException 401 ''Could not validate credentials''))
   \<and> (decode_payload token = Inr token_data \<and> sub token_data = Some s \<and> s \<noteq> []
        \<and> UUID s = Some user_id \<and> user_id \<notin> u_id ` set (db_users db)
      \<longrightarrow> get_current_user decode_payload UUID db token
            = Inl (HTTPException 401 ''User not found''))"
  by (auto simp: get_current_user_def get_user_None_iff [symmetric])

theorem get_current_user_failure_details_witness:
  "get_current_user sample_decode_payload UUID_of_str sample_db ''garbage''
     = Inl (HTTPException 401 ''Could not validate credentials'')
   \<and> get_current_user sample_decode_payload UUID_of_str sample_db ''token-no-sub''
     = Inl (HTTPException 401 ''Could not validate credentials'')
   \<and> get_current_user sample_decode_payload UUID_of_str sample_db ''token-empty-sub''
     = Inl (HTTPException 401 ''Could not validate credentials'')
   \<and> get_current_user sample_decode_payload UUID_of_str sample_db ''token-ghost''
     = Inl (HTTPException 401 ''User not found'')"
proof -
  have g: "sample_decode_payload ''garbage'' = Inl JWTError"
    by (simp add: sample_decode_payload_def)
  have n: "sample_decode_payload ''token-no-sub'' = Inr \<lparr>sub = None, exp = Some 4102444800\<rparr>"
    by (simp add: sample_decode_payload_def)
  have e: "sample_decode_payload ''token-empty-sub'' = Inr \<lparr>sub = Some [], exp = Some 4102444800\<rparr>"
    by (simp add: sample_decode_payload_def)
  have d: "sample_decode_payload ''token-ghost''
             = Inr \<lparr>sub = Some ''00000000-0000-0000-0000-000000000063'', exp = Some 4102444800\<rparr>"
    by (simp add: sample_decode_payload_def)
  have u: "UUID_of_str ''00000000-0000-0000-0000-000000000063'' = Some 99"
    by code_simp
  have m: "(99::nat) \<notin> u_id ` set (db_users sample_db)"
    by (simp add: sample_db_def alice_def bob_def carol_def dave_def)
  show ?thesis
    using get_current_user_failure_details
            [where decode_payload = sample_decode_payload and UUID = UUID_of_str
               and db = sample_db and token = "''garbage''"]
          get_current_user_failure_details
            [where decode_payload = sample_decode_payload and UUID = UUID_of_str
               and db = sample_db and token = "''token-no-sub''"
               and token_data = "\<lparr>sub = None, exp = Some 4102444800\<rparr>"]
          get_current_user_failure_details
            [where decode_payload = sample_decode_payload and UUID = UUID_of_str
               and db = sample_db and token = "''token-empty-sub''"
               and token_data = "\<lparr>sub = Some [], exp = Some 4102444800\<rparr>"]
          get_current_user_failure_details
            [where decode_payload = sample_decode_payload and UUID = UUID_of_str
               and db = sample_db and token = "''token-ghost''"
               and token_data = "\<lparr>sub = Some ''00000000-0000-0000-0000-000000000063'',
                                  exp = Some 4102444800\<rparr>"
               and s = "''00000000-0000-0000-0000-000000000063''" and user_id = 99]
          g n e d u m
    by simp
qed

text \<open>
  C5. Resolution is asked to end in a 401 for every token that does not resolve, and
  never in an unhandled error. A token whose subject is a non-empty string that is no
  UUID decodes, passes the emptiness test, and then the \<^verbatim>\<open>UUID\<close> constructor
  raises \<open>ValueError\<close>, which nothing catches: the request ends in a 500.
\<close>

theorem get_current_user_malformed_subject:
  "sample_decode_payload ''token-bad-sub''
     = Inr \<lparr>sub = Some ''not-a-uuid'', exp = Some 4102444800\<rparr>
   \<and> UUID_of_str ''not-a-uuid'' = None
   \<and> get_current_user sample_decode_payload UUID_of_str sample_db ''token-bad-sub''
       = Inl ValueError
   \<and> respond 200 (get_current_user sample_decode_payload UUID_of_str sample_db ''token-bad-sub'')
       = ErrorResponse 500 ''Internal Server Error''"
proof -
  have d: "sample_decode_payload ''token-bad-sub''
             = Inr \<lparr>sub = Some ''not-a-uuid'', exp = Some 4102444800\<rparr>"
    by (simp add: sample_decode_payload_def)
  have u: "UUID_of_str ''not-a-uuid'' = None"
    by code_simp
  from d u show ?thesis
    by (simp add: get_current_user_def)
qed

section \<open>Authorization gate\<close>

text \<open>
  C3. An inactive user is asked to be rejected by the active check before the superuser
  check. \<open>get_current_active_superuser\<close> tests \<open>is_superuser\<close> only: an inactive
  superuser is returned, and an inactive user without the flag gets the 403 of the
  privilege check, not the 400 that \<open>get_current_active_user\<close> gives.
\<close>

theorem get_current_active_superuser_skips_active_check:
  "\<not> u_is_active carol \<and> u_is_superuser carol
   \<and> get_current_active_superuser carol = Inr carol
   \<and> current_active_superuser sample_decode_payload UUID_of_str sample_db ''token-carol''
       = Inr carol
   \<and> \<not> u_is_active dave \<and> \<not> u_is_superuser dave
   \<and> get_current_active_superuser dave = Inl (HTTPException 403 ''Insufficient privileges'')
   \<and> current_active_superuser sample_decode_payload UUID_of_str sample_db ''token-dave''
       = Inl (HTTPException 403 ''Insufficient privileges'')
   \<and> current_active_user sample_decode_payload UUID_of_str sample_db ''token-dave''
       = Inl (HTTPException 400 ''Inactive user'')"
proof -
  have dc: "sample_decode_payload ''token-carol''
              = Inr \<lparr>sub = Some ''00000000-0000-0000-0000-00000000000c'', exp = Some 4102444800\<rparr>"
    by (simp add: sample_decode_payload_def)
  have dd: "sample_decode_payload ''token-dave''
              = Inr \<lparr>sub = Some ''00000000-0000-0000-0000-00000000000d'', exp = Some 4102444800\<rparr>"
    by (simp add: sample_decode_payload_def)
  have uc: "UUID_of_str ''00000000-0000-0000-0000-00000000000c'' = Some 12"
    by code_simp
  have ud: "UUID_of_str ''00000000-0000-0000-0000-00000000000d'' = Some 13"
    by code_simp
  have gc: "get_user sample_db 12 = Some carol"
    by (simp add: get_user_def sample_db_def alice_def bob_def carol_def)
  have gd: "get_user sample_db 13 = Some dave"
    by (simp add: get_user_def sample_db_def alice_def bob_def carol_def dave_def)
  have rc: "get_current_user sample_decode_payload UUID_of_str sample_db ''token-carol''
              = Inr carol"
    by (simp add: get_current_user_def dc uc gc)
  have rd: "get_current_user sample_decode_payload UUID_of_str sample_db ''token-dave''
              = Inr dave"
    by (simp add: get_current_user_def dd ud gd)
  have c: "\<not> u_is_active carol \<and> u_is_superuser carol"
    by (simp add: carol_def)
  have d: "\<not> u_is_active dave \<and> \<not> u_is_superuser dave"
    by (simp add: dave_def)
  from c d show ?thesis
    by (simp add: current_active_superuser_def current_active_user_def Depends_def rc rd
          get_current_active_superuser_def get_current_active_user_def)
qed

section \<open>Ownership of items\<close>

text \<open>
  C2. With the primary key of \<^verbatim>\<open>items\<close> unique, a user \<open>a\<close> who asks for, updates
  or deletes by its id an item owned by another user \<open>b\<close> gets the 404 ``Item not found'',
  the same response as for an id that is in no row, and so never a 403. The query of
  \<open>get_item\<close> itself finds nothing: the owner is part of its filter.
\<close>

theorem other_owner_item_not_found:
  assumes "distinct (map i_id (db_items db))"
    and "item \<in> set (db_items db)"
    and "i_owner_id item = u_id b"
    and "u_id a \<noteq> u_id b"
    and "missing \<notin> i_id ` set (db_items db)"
  shows "get_item db (u_id a) (i_id item) = None
       \<and> get_item_by_id db a (i_id item) = Inl (HTTPException 404 ''Item not found'')
       \<and> update_item_by_id db a (i_id item) item_in now
           = Inl (HTTPException 404 ''Item not found'')
       \<and> delete_item_by_id db a (i_id item) = Inl (HTTPException 404 ''Item not found'')
       \<and> respond 200 (get_item_by_id db a (i_id item)) = respond 200 (get_item_by_id db a missing)
       \<and> respond 200 (update_item_by_id db a (i_id item) item_in now)
           = respond 200 (update_item_by_id db a missing item_in now)
       \<and> respond 204 (delete_item_by_id db a (i_id item))
           = respond 204 (delete_item_by_id db a missing)
       \<and> respond 200 (get_item_by_id db a (i_id item)) = ErrorResponse 404 ''Item not found''"
proof -
  from assms(3,4) have "i_owner_id item \<noteq> u_id a" by simp
  with assms(1,2) have own: "get_item db (u_id a) (i_id item) = None"
    by (rule get_item_other_owner)
  from assms(5) have mis: "get_item db (u_id a) missing = None"
    by (rule get_item_missing)
  from own mis show ?thesis
    by (simp add: get_item_by_id_def update_item_by_id_def delete_item_by_id_def)
qed

theorem other_owner_item_not_found_witness:
  "get_item sample_db (u_id alice) (i_id taxes) = None
   \<and> get_item_by_id sample_db alice (i_id taxes) = Inl (HTTPException 404 ''Item not found'')
   \<and> update_item_by_id sample_db alice (i_id taxes) \<lparr>iu_title = Some ''mine'', iu_description = None\<rparr> 400
       = Inl (HTTPException 404 ''Item not found'')
   \<and> delete_item_by_id sample_db alice (i_id taxes) = Inl (HTTPException 404 ''Item not found'')
   \<and> respond 200 (get_item_by_id sample_db alice (i_id taxes))
       = respond 200 (get_item_by_id sample_db alice 999)
   \<and> respond 200 (update_item_by_id sample_db alice (i_id taxes) \<lparr>iu_title = Some ''mine'', iu_description = None\<rparr> 400)
       = respond 200 (update_item_by_id sample_db alice 999 \<lparr>iu_title = Some ''mine'', iu_description = None\<rparr> 400)
   \<and> respond 204 (delete_item_by_id sample_db alice (i_id taxes))
       = respond 204 (delete_item_by_id sample_db alice 999)
   \<and> respond 200 (get_item_by_id sample_db alice (i_id taxes)) = ErrorResponse 404 ''Item not found''"
proof -
  have 1: "distinct (map i_id (db_items sample_db))"
    by (simp add: sample_db_def groceries_def laundry_def taxes_def)
  have 2: "taxes \<in> set (db_items sample_db)"
    by (simp add: sample_db_def)
  have 3: "i_owner_id taxes = u_id bob"
    by (simp add: taxes_def bob_def)
  have 4: "u_id alice \<noteq> u_id bob"
    by (simp add: alice_def bob_def)
  have 5: "(999::nat) \<notin> i_id ` set (db_items sample_db)"
    by (simp add: sample_db_def groceries_def laundry_def taxes_def)
  show ?thesis
    by (rule other_owner_item_not_found [OF 1 2 3 4 5])
qed

section \<open>Registration and login\<close>

text \<open>
  C6. \<open>authenticate_user\<close> returns \<^verbatim>\<open>None\<close> both for an email that no stored user
  has and for a stored email with a password that does not verify, and \<open>login\<close> turns
  both into the same 401 with the same message.
\<close>

theorem authenticate_user_failures_indistinguishable:
  assumes "lower email1 \<notin> u_email ` set (db_users db)"
    and "get_user_by_email db email2 = Some user"
    and "\<not> verify_password password2 (u_hashed_password user)"
  shows "authenticate_user verify_password db email1 password1 = None
       \<and> authenticate_user verify_password db email2 password2 = None
       \<and> login verify_password create_access_token str minutes db
             \<lparr>lr_email = email1, lr_password = password1\<rparr>
           = Inl (HTTPException 401 ''Incorrect email or password'')
       \<and> login verify_password create_access_token str minutes db
             \<lparr>lr_email = email2, lr_password = password2\<rparr>
           = Inl (HTTPException 401 ''Incorrect email or password'')
       \<and> respond 200 (login verify_password create_access_token str minutes db
                         \<lparr>lr_email = email1, lr_password = password1\<rparr>)
           = respond 200 (login verify_password create_access_token str minutes db
                            \<lparr>lr_email = email2, lr_password = password2\<rparr>)"
proof -
  have a1: "authenticate_user verify_password db email1 password1 = None"
    using assms(1) by (rule authenticate_user_unknown)
  have a2: "authenticate_user verify_password db email2 password2 = None"
    using assms(2,3) by (rule authenticate_user_wrong_password)
  from a1 a2 show ?thesis
    by (simp add: login_def)
qed

theorem authenticate_user_failures_indistinguishable_witness:
  "authenticate_user sample_verify sample_db ''mallory@example.com'' ''anything'' = None
   \<and> authenticate_user sample_verify sample_db ''Alice@Example.com'' ''wrong-password'' = None
   \<and> login sample_verify sample_create_access_token sample_str 30 sample_db
         \<lparr>lr_email = ''mallory@example.com'', lr_password = ''anything''\<rparr>
       = Inl (HTTPException 401 ''Incorrect email or password'')
   \<and> login sample_verify sample_create_access_token sample_str 30 sample_db
         \<lparr>lr_email = ''Alice@Example.com'', lr_password = ''wrong-password''\<rparr>
       = Inl (HTTPException 401 ''Incorrect email or password'')
   \<and> respond 200 (login sample_verify sample_create_access_token sample_str 30 sample_db
                     \<lparr>lr_email = ''mallory@example.com'', lr_password = ''anything''\<rparr>)
       = respond 200 (login sample_verify sample_create_access_token sample_str 30 sample_db
                        \<lparr>lr_email = ''Alice@Example.com'', lr_password = ''wrong-password''\<rparr>)"
proof -
  have l1: "lower ''mallory@example.com'' = ''mallory@example.com''"
    by code_simp
  have 1: "lower ''mallory@example.com'' \<notin> u_email ` set (db_users sample_db)"
    unfolding l1 by (simp add: sample_db_def alice_def bob_def carol_def dave_def)
  have l2: "lower ''Alice@Example.com'' = ''alice@example.com''"
    by code_simp
  have 2: "get_user_by_email sample_db ''Alice@Example.com'' = Some alice"
    unfolding get_user_by_email_def l2 by (simp add: sample_db_def alice_def)
  have 3: "\<not> sample_verify ''wrong-password'' (u_hashed_password alice)"
    by (simp add: sample_verify_def alice_def)
  show ?thesis
    by (rule authenticate_user_failures_indistinguishable
          [where verify_password = sample_verify and db = sample_db and user = alice, OF 1 2 3])
qed

text \<open>
  C7. After \<open>create_user\<close> has accepted an email and a password, \<open>authenticate_user\<close>
  with that email in any letter case and that password returns the created user, whose
  email is the registered one up to case. This holds on the session that \<open>create_user\<close>
  returns and on every later session in which the user is still stored and the unique
  index on \<^verbatim>\<open>email\<close> holds, whatever was registered since; \<open>create_user\<close> stores
  the user and keeps the index. The hasher is a parameter: the digest it gave for the
  password must verify against it.
\<close>

theorem create_user_then_authenticate_user:
  assumes "create_user get_password_hash db user_in is_superuser new_id now = Inr (db', user)"
    and "verify_password (uc_password user_in) (get_password_hash (uc_password user_in))"
    and "lower email = lower (uc_email user_in)"
  shows "authenticate_user verify_password db' email (uc_password user_in) = Some user
       \<and> lower (u_email user) = lower (uc_email user_in)
       \<and> user \<in> set (db_users db')
       \<and> (distinct (map u_email (db_users db)) \<longrightarrow> distinct (map u_email (db_users db')))
       \<and> (\<forall>later. user \<in> set (db_users later) \<and> distinct (map u_email (db_users later))
             \<longrightarrow> authenticate_user verify_password later email (uc_password user_in)
                   = Some user)"
proof -
  note c = create_user_Inr [OF assms(1)]
  have e: "u_email user = lower (uc_email user_in)"
    by (subst c(1)) simp
  have h: "u_hashed_password user = get_password_hash (uc_password user_in)"
    by (subst c(1)) simp
  from e assms(3) have el: "u_email user = lower email"
    by simp
  from h assms(2) have v: "verify_password (uc_password user_in) (u_hashed_password user)"
    by simp
  from c(3) have "\<not> (\<exists>u \<in> set (db_users db). u_email u = lower (uc_email user_in))"
    by (auto simp: image_iff)
  then have "find (\<lambda>u. u_email u = lower (uc_email user_in)) (db_users db @ [user]) = Some user"
    using e by (rule find_append_new)
  then have "get_user_by_email db' (lower email) = Some user"
    by (simp add: get_user_by_email_def c(2) lower_idem assms(3))
  with v have now: "authenticate_user verify_password db' email (uc_password user_in) = Some user"
    by (simp add: authenticate_user_def)
  have norm: "lower (u_email user) = lower (uc_email user_in)"
    by (simp add: e lower_idem)
  have mem: "user \<in> set (db_users db')"
    by (simp add: c(2))
  have dist: "distinct (map u_email (db_users db)) \<longrightarrow> distinct (map u_email (db_users db'))"
    using create_user_distinct_emails [OF assms(1)] by blast
  have later: "\<forall>later. user \<in> set (db_users later) \<and> distinct (map u_email (db_users later))
                 \<longrightarrow> authenticate_user verify_password later email (uc_password user_in)
                       = Some user"
    using el v by (auto intro: authenticate_user_stored)
  from now norm mem dist later show ?thesis
    by blast
qed

theorem create_user_then_authenticate_user_witness:
  "create_user sample_hash sample_db
       \<lparr>uc_email = ''Erin@Example.com'', uc_full_name = None, uc_password = ''pw12345678''\<rparr>
       False 14 500
     = Inr (sample_db\<lparr>db_users := [alice, bob, carol, dave, erin]\<rparr>, erin)
   \<and> create_user sample_hash (sample_db\<lparr>db_users := [alice, bob, carol, dave, erin]\<rparr>)
       \<lparr>uc_email = ''Frank@Example.com'', uc_full_name = Some ''Frank'',
         uc_password = ''frankfrank''\<rparr>
       False 15 600
     = Inr (sample_db\<lparr>db_users := [alice, bob, carol, dave, erin, frank]\<rparr>, frank)
   \<and> authenticate_user sample_verify (sample_db\<lparr>db_users := [alice, bob, carol, dave, erin]\<rparr>)
       ''ERIN@example.COM'' ''pw12345678'' = Some erin
   \<and> authenticate_user sample_verify
       (sample_db\<lparr>db_users := [alice, bob, carol, dave, erin, frank]\<rparr>)
       ''ERIN@example.COM'' ''pw12345678'' = Some erin
   \<and> erin \<noteq> frank"
proof -
  let ?erin_in = "\<lparr>uc_email = ''Erin@Example.com'', uc_full_name = None,
                   uc_password = ''pw12345678''\<rparr>"
  let ?frank_in = "\<lparr>uc_email = ''Frank@Example.com'', uc_full_name = Some ''Frank'',
                    uc_password = ''frankfrank''\<rparr>"
  let ?db1 = "sample_db\<lparr>db_users := [alice, bob, carol, dave, erin]\<rparr>"
  let ?db2 = "sample_db\<lparr>db_users := [alice, bob, carol, dave, erin, frank]\<rparr>"
  have l1: "lower ''Erin@Example.com'' = ''erin@example.com''"
    by code_simp
  have l2: "lower ''ERIN@example.COM'' = ''erin@example.com''"
    by code_simp
  have l3: "lower ''Frank@Example.com'' = ''frank@example.com''"
    by code_simp
  have 1: "create_user sample_hash sample_db ?erin_in False 14 500 = Inr (?db1, erin)"
    by (simp add: create_user_def Let_def l1 sample_hash_def sample_db_def alice_def bob_def
          carol_def dave_def erin_def)
  have f: "create_user sample_hash ?db1 ?frank_in False 15 600 = Inr (?db2, frank)"
    by (simp add: create_user_def Let_def l3 sample_hash_def sample_db_def alice_def bob_def
          carol_def dave_def erin_def frank_def)
  have 2: "sample_verify (uc_password ?erin_in) (sample_hash (uc_password ?erin_in))"
    by (simp add: sample_verify_def sample_hash_def)
  have 3: "lower ''ERIN@example.COM'' = lower (uc_email ?erin_in)"
    by (simp add: l1 l2)
  have m: "erin \<in> set (db_users ?db2)"
    by simp
  have d: "distinct (map u_email (db_users ?db2))"
    by (simp add: alice_def bob_def carol_def dave_def erin_def frank_def)
  have ne: "erin \<noteq> frank"
    by (simp add: erin_def frank_def)
  from create_user_then_authenticate_user
         [where get_password_hash = sample_hash and verify_password = sample_verify, OF 1 2 3]
  have a: "authenticate_user sample_verify ?db1 ''ERIN@example.COM'' ''pw12345678'' = Some erin"
    and b: "\<forall>later. erin \<in> set (db_users later) \<and> distinct (map u_email (db_users later))
              \<longrightarrow> authenticate_user sample_verify later ''ERIN@example.COM'' ''pw12345678''
                    = Some erin"
    by simp_all
  from b m d
  have c: "authenticate_user sample_verify ?db2 ''ERIN@example.COM'' ''pw12345678'' = Some erin"
    by blast
  from 1 f a c ne show ?thesis
    by blast
qed

text \<open>
  C8. On a store whose emails are all in lower case, \<open>register_user\<close> answers 400
  ``Email already registered'' when some stored email equals the submitted one up to case,
  and nothing is stored; otherwise (the new primary key being fresh) it answers 201 and
  appends one user. Whenever it succeeds, the stored email is the submitted one in lower
  case, and the emails of the new store are again all in lower case.
\<close>

theorem register_user_normalizes_and_rejects_duplicates:
  assumes "emails_normalized db"
  shows "(list_ex (\<lambda>u. lower (u_email u) = lower (uc_email user_in)) (db_users db)
            \<longrightarrow> register_user get_password_hash db user_in new_id now
                  = Inl (HTTPException 400 ''Email already registered'')
              \<and> respond 201 (register_user get_password_hash db user_in new_id now)
                  = ErrorResponse 400 ''Email already registered'')
       \<and> (\<not> list_ex (\<lambda>u. lower (u_email u) = lower (uc_email user_in)) (db_users db)
            \<and> new_id \<notin> u_id ` set (db_users db)
            \<longrightarrow> (\<exists>user. register_user get_password_hash db user_in new_id now
                          = Inr (db\<lparr>db_users := db_users db @ [user]\<rparr>, user)
                      \<and> respond 201 (register_user get_password_hash db user_in new_id now)
                          = Response 201 (db\<lparr>db_users := db_users db @ [user]\<rparr>, user)
                      \<and> u_id user = new_id
                      \<and> u_email user = lower (uc_email user_in)))
       \<and> (\<forall>db' user. register_user get_password_hash db user_in new_id now = Inr (db', user)
            \<longrightarrow> u_email user = lower (uc_email user_in)
              \<and> db_users db' = db_users db @ [user]
              \<and> emails_normalized db')"
proof (intro conjI impI allI)
  assume dup: "list_ex (\<lambda>u. lower (u_email u) = lower (uc_email user_in)) (db_users db)"
  with assms have "get_user_by_email db (uc_email user_in) \<noteq> None"
    by (simp add: get_user_by_email_normalized)
  then obtain existing where "get_user_by_email db (uc_email user_in) = Some existing"
    by auto
  then show r: "register_user get_password_hash db user_in new_id now
              = Inl (HTTPException 400 ''Email already registered'')"
    by (simp add: register_user_def)
  show "respond 201 (register_user get_password_hash db user_in new_id now)
          = ErrorResponse 400 ''Email already registered''"
    by (simp add: r)
next
  assume fresh: "\<not> list_ex (\<lambda>u. lower (u_email u) = lower (uc_email user_in)) (db_users db)
                 \<and> new_id \<notin> u_id ` set (db_users db)"
  with assms have none: "get_user_by_email db (uc_email user_in) = None"
    by (simp add: get_user_by_email_normalized)
  then have e: "lower (uc_email user_in) \<notin> u_email ` set (db_users db)"
    by (simp add: get_user_by_email_None_iff)
  from fresh have i: "new_id \<notin> u_id ` set (db_users db)"
    by simp
  from create_user_fresh [OF e i]
  obtain user where u: "create_user get_password_hash db user_in False new_id now
                          = Inr (db\<lparr>db_users := db_users db @ [user]\<rparr>, user)"
    "u_id user = new_id" "u_email user = lower (uc_email user_in)"
    by blast
  from none u(1) have r: "register_user get_password_hash db user_in new_id now
                            = Inr (db\<lparr>db_users := db_users db @ [user]\<rparr>, user)"
    by (simp add: register_user_def)
  show "\<exists>user. register_user get_password_hash db user_in new_id now
                  = Inr (db\<lparr>db_users := db_users db @ [user]\<rparr>, user)
              \<and> respond 201 (register_user get_password_hash db user_in new_id now)
                  = Response 201 (db\<lparr>db_users := db_users db @ [user]\<rparr>, user)
              \<and> u_id user = new_id
              \<and> u_email user = lower (uc_email user_in)"
    using r u(2,3) by (intro exI [of _ user]) simp
next
  fix db' user
  assume r: "register_user get_password_hash db user_in new_id now = Inr (db', user)"
  then have c: "create_user get_password_hash db user_in False new_id now = Inr (db', user)"
    by (simp add: register_user_def split: option.splits)
  note f = create_user_Inr [OF c]
  show "u_email user = lower (uc_email user_in)"
    by (subst f(1)) simp
  show "db_users db' = db_users db @ [user]"
    by (simp add: f(2))
  show "emails_normalized db'"
    using assms c by (rule emails_normalized_create_user)
qed

theorem register_user_normalizes_and_rejects_duplicates_witness:
  "register_user sample_hash sample_db
       \<lparr>uc_email = ''ALICE@example.com'', uc_full_name = None, uc_password = ''pw12345678''\<rparr>
       14 500
     = Inl (HTTPException 400 ''Email already registered'')
   \<and> u_email (snd (projr (register_user sample_hash sample_db
          \<lparr>uc_email = ''Erin@Example.com'', uc_full_name = None, uc_password = ''pw12345678''\<rparr>
          14 500)))
     = ''erin@example.com''
   \<and> isl (register_user sample_hash sample_db
          \<lparr>uc_email = ''Erin@Example.com'', uc_full_name = None, uc_password = ''pw12345678''\<rparr>
          14 500) = False"
proof -
  let ?dup = "\<lparr>uc_email = ''ALICE@example.com'', uc_full_name = None, uc_password = ''pw12345678''\<rparr>"
  let ?new = "\<lparr>uc_email = ''Erin@Example.com'', uc_full_name = None, uc_password = ''pw12345678''\<rparr>"
  have inv: "emails_normalized sample_db"
    by code_simp
  have d: "list_ex (\<lambda>u. lower (u_email u) = lower (uc_email ?dup)) (db_users sample_db)"
    by code_simp
  have n: "\<not> list_ex (\<lambda>u. lower (u_email u) = lower (uc_email ?new)) (db_users sample_db)"
    by code_simp
  have i: "(14::nat) \<notin> u_id ` set (db_users sample_db)"
    by (simp add: sample_db_def alice_def bob_def carol_def dave_def)
  have l: "lower (uc_email ?new) = ''erin@example.com''"
    by code_simp
  from register_user_normalizes_and_rejects_duplicates
         [OF inv, where user_in = ?dup and get_password_hash = sample_hash
            and new_id = 14 and now = 500] d
  have 1: "register_user sample_hash sample_db ?dup 14 500
             = Inl (HTTPException 400 ''Email already registered'')"
    by blast
  from register_user_normalizes_and_rejects_duplicates
         [OF inv, where user_in = ?new and get_password_hash = sample_hash
            and new_id = 14 and now = 500] n i
  obtain user where u: "register_user sample_hash sample_db ?new 14 500
             = Inr (sample_db\<lparr>db_users := db_users sample_db @ [user]\<rparr>, user)"
    "u_email user = lower (uc_email ?new)"
    by blast
  from 1 u l show ?thesis
    by simp
qed

section \<open>Listing and updating items\<close>

text \<open>
  C9. \<open>list_items\<close> returns exactly the rows of \<^verbatim>\<open>items\<close> whose owner is the given
  identifier, each once, newest first by \<open>created_at\<close>; no row of another owner is in
  the result. The route passes the identifier of the resolved user.
\<close>

theorem list_items_owner_newest_first:
  "mset (list_items db owner_id)
     = filter_mset (\<lambda>i. i_owner_id i = owner_id) (mset (db_items db))
   \<and> (\<forall>i \<in> set (list_items db owner_id). i_owner_id i = owner_id)
   \<and> sorted_wrt (\<lambda>a b. i_created_at b \<le> i_created_at a) (list_items db owner_id)
   \<and> list_my_items db current_user = Inr (list_items db (u_id current_user))"
proof (intro conjI)
  show "list_my_items db current_user = Inr (list_items db (u_id current_user))"
    by (simp add: list_my_items_def)
  show "mset (list_items db owner_id)
          = filter_mset (\<lambda>i. i_owner_id i = owner_id) (mset (db_items db))"
    by (simp add: list_items_def)
  show "\<forall>i \<in> set (list_items db owner_id). i_owner_id i = owner_id"
    by (simp add: list_items_def)
  have "sorted (map (\<lambda>i. - i_created_at i) (list_items db owner_id))"
    unfolding list_items_def by (rule sorted_sort_key)
  then show "sorted_wrt (\<lambda>a b. i_created_at b \<le> i_created_at a) (list_items db owner_id)"
    by (simp add: sorted_map)
qed

theorem list_items_owner_newest_first_witness:
  "list_items sample_db (u_id alice) = [laundry, groceries]
   \<and> i_owner_id laundry = u_id alice \<and> i_owner_id groceries = u_id alice
   \<and> i_created_at groceries \<le> i_created_at laundry
   \<and> mset [laundry, groceries]
       = filter_mset (\<lambda>i. i_owner_id i = u_id alice) (mset (db_items sample_db))
   \<and> list_my_items sample_db alice = Inr [laundry, groceries]"
proof -
  have e: "list_items sample_db (u_id alice) = [laundry, groceries]"
    by (simp add: list_items_def sample_db_def alice_def groceries_def laundry_def taxes_def)
  from list_items_owner_newest_first [of sample_db "u_id alice" alice] show ?thesis
    unfolding e by simp
qed

text \<open>
  C10. The claim lets \<open>update_item\<close> change the title and the description of the record
  and nothing else. The column \<^verbatim>\<open>updated_at\<close> is declared with
  \<^verbatim>\<open>onupdate=func.now()\<close>, so an update that changes the title also moves
  \<open>updated_at\<close> of the record.
\<close>

theorem update_item_updated_at_counterexample:
  "i_updated_at groceries = Some 200
   \<and> i_updated_at (snd (update_item sample_db groceries
                          \<lparr>iu_title = Some ''food'', iu_description = None\<rparr> 400))
       = Some 400"
  by (simp add: update_item_def Let_def groceries_def)

text \<open>
  C10, as the code has it: on a stored record (the primary key being unique),
  \<open>update_item\<close> changes at most the title, the description and \<open>updated_at\<close>. The
  id, the owner and \<open>created_at\<close> are unchanged, in the returned record and in every row
  of the table; a title or description given as \<^verbatim>\<open>None\<close> keeps its value; the
  users are untouched.
\<close>

theorem update_item_frame:
  assumes "distinct (map i_id (db_items db))"
    and "item \<in> set (db_items db)"
    and "update_item db item item_in now = (db', item')"
  shows "i_id item' = i_id item \<and> i_owner_id item' = i_owner_id item
       \<and> i_created_at item' = i_created_at item
       \<and> (iu_title item_in = None \<longrightarrow> i_title item' = i_title item)
       \<and> (iu_description item_in = None \<longrightarrow> i_description item' = i_description item)
       \<and> item'\<lparr>i_title := i_title item, i_description := i_description item,
                i_updated_at := i_updated_at item\<rparr> = item
       \<and> map i_id (db_items db') = map i_id (db_items db)
       \<and> map i_owner_id (db_items db') = map i_owner_id (db_items db)
       \<and> map i_created_at (db_items db') = map i_created_at (db_items db)
       \<and> item' \<in> set (db_items db')
       \<and> db_users db' = db_users db"
proof -
  note r = update_item_result [OF assms(3)]
  have t: "iu_title item_in = None \<longrightarrow> i_title item' = i_title item"
    by (simp add: r(4))
  have d: "iu_description item_in = None \<longrightarrow> i_description item' = i_description item"
    by (simp add: r(5))
  have eq: "item'\<lparr>i_title := i_title item, i_description := i_description item,
                  i_updated_at := i_updated_at item\<rparr> = item"
    using r(1-3) by (cases item, cases item') simp
  have m1: "map i_id (db_items db') = map i_id (db_items db)"
    unfolding r(7) using update_rows_frame [OF assms(1,2) r(1)] by simp
  have m2: "map i_owner_id (db_items db') = map i_owner_id (db_items db)"
    unfolding r(7) using update_rows_frame [OF assms(1,2) r(2)] by simp
  have m3: "map i_created_at (db_items db') = map i_created_at (db_items db)"
    unfolding r(7) using update_rows_frame [OF assms(1,2) r(3)] by simp
  have mem: "item' \<in> set (db_items db')"
    unfolding r(7) using assms(2) by (auto simp: image_iff intro!: bexI [of _ item])
  have us: "db_users db' = db_users db"
    by (simp add: r(7))
  from r(1-3) t d eq m1 m2 m3 mem us show ?thesis
    by blast
qed

theorem update_item_frame_witness:
  "update_item sample_db laundry \<lparr>iu_title = Some ''wash'', iu_description = None\<rparr> 400
     = (sample_db\<lparr>db_items := [groceries,
                                laundry\<lparr>i_title := ''wash'', i_updated_at := Some 400\<rparr>,
                                taxes]\<rparr>,
        laundry\<lparr>i_title := ''wash'', i_updated_at := Some 400\<rparr>)
   \<and> i_id (laundry\<lparr>i_title := ''wash'', i_updated_at := Some 400\<rparr>) = i_id laundry
   \<and> i_owner_id (laundry\<lparr>i_title := ''wash'', i_updated_at := Some 400\<rparr>) = i_owner_id laundry
   \<and> i_created_at (laundry\<lparr>i_title := ''wash'', i_updated_at := Some 400\<rparr>) = i_created_at laundry
   \<and> i_description (laundry\<lparr>i_title := ''wash'', i_updated_at := Some 400\<rparr>) = i_description laundry"
proof -
  let ?item' = "laundry\<lparr>i_title := ''wash'', i_updated_at := Some 400\<rparr>"
  let ?db' = "sample_db\<lparr>db_items := [groceries, ?item', taxes]\<rparr>"
  have 1: "distinct (map i_id (db_items sample_db))"
    by (simp add: sample_db_def groceries_def laundry_def taxes_def)
  have 2: "laundry \<in> set (db_items sample_db)"
    by (simp add: sample_db_def)
  have 3: "update_item sample_db laundry \<lparr>iu_title = Some ''wash'', iu_description = None\<rparr> 400
             = (?db', ?item')"
    by (simp add: update_item_def Let_def sample_db_def groceries_def laundry_def taxes_def)
  from update_item_frame [OF 1 2 3] 3 show ?thesis
    by simp
qed

end
